theory Spec2Isabelle
  imports Main "HOL-Library.AList" "HOL-Library.Multiset"
    "HOL-Library.Char_ord" "HOL-Library.List_Lexorder" "HOL-Library.Product_Lexorder"
begin

section \<open>Data model of \<open>viz_slots.py\<close>\<close>

text \<open>
  A Python \<open>dict\<close> keeps its keys unique and in insertion order, and an assignment to
  an existing key replaces the value where it stands. It is modelled as an association
  list: \<open>map_of\<close> is the lookup \<open>d[k]\<close> (\<open>None\<close> where Python raises
  \<open>KeyError\<close>) and \<open>AList.update\<close> is the assignment \<open>d[k] = v\<close>.

  The grid \<open>slots\<close> is a dict from location to a row, a row is a dict from shelf
  position to \<open>Optional[str]\<close>: \<open>None\<close> is an empty slot, \<open>Some b\<close> a slot
  holding block \<open>b\<close>. The rows are distinct objects, as \<open>start_slots\<close> builds them.

  A move arrives from the planner as the list \<open>["move", sl, sp, dl, dp, block]\<close>;
  it is modelled as the 6-tuple the code unpacks it into, with the locations and the
  block as strings and the positions as integers (on which \<open>int(sp)\<close> is the identity).
\<close>

type_synonym row = "(int \<times> string option) list"
type_synonym slots = "(string \<times> row) list"
type_synonym action = "string \<times> string \<times> int \<times> string \<times> int \<times> string"

text \<open>
  The exceptions the code can raise, as values. The two \<open>ValueError\<close>s of
  \<open>apply_move\<close> are told apart by their message: \<open>ValueError_expected\<close> is
  \<open>"Expected {block} at {sl}:{sp}, found {slots[sl][sp]}"\<close> (the specification's
  PreconditionViolation(SourceMismatch)) and \<open>ValueError_destination_not_empty\<close> is
  \<open>"Destination not empty {dl}:{dp}"\<close> (PreconditionViolation(DestinationOccupied)).
  \<open>KeyError\<close> is the specification's UnknownKey.
\<close>

datatype error =
    KeyError_str string
  | KeyError_int int
  | ValueError_unknown_scenario string
  | ValueError_expected string string int "string option"
  | ValueError_destination_not_empty string int
  | ValueError_not_in_list string
  | StopIteration

subsection \<open>The lookup tables\<close>

definition DIST :: "((string \<times> string) \<times> int) list" where
  "DIST =
    [((''a'', ''b''), 2), ((''b'', ''a''), 2),
     ((''a'', ''c''), 3), ((''c'', ''a''), 3),
     ((''b'', ''c''), 1), ((''c'', ''b''), 1)]"

definition SHELF_HEIGHT :: "(int \<times> int) list" where
  "SHELF_HEIGHT = [(1, 1), (2, 3), (3, 5)]"

definition WEIGHT :: "(string \<times> int) list" where
  "WEIGHT = [(''a'', 1), (''b'', 2), (''c'', 3)]"

subsection \<open>\<open>move_cost\<close>\<close>

text \<open>The returned breakdown dict has the three fixed keys of this record.\<close>

record breakdown =
  distance :: int
  vertical :: int
  weight :: int

text \<open>\<open>DIST.get((sl, dl), 0)\<close>: the lookup with default 0.\<close>

definition DIST_get :: "string \<Rightarrow> string \<Rightarrow> int" where
  "DIST_get sl dl = (case map_of DIST (sl, dl) of None \<Rightarrow> 0 | Some d \<Rightarrow> d)"

text \<open>
  \<open>SHELF_HEIGHT[sp]\<close> is read before \<open>SHELF_HEIGHT[dp]\<close>, and both before
  \<open>WEIGHT[block]\<close>; each raises \<open>KeyError\<close> on a missing key.
\<close>

fun move_cost :: "action \<Rightarrow> error + (int \<times> breakdown)" where
  "move_cost (_, sl, sp, dl, dp, block) =
    (let d = DIST_get sl dl in
     case map_of SHELF_HEIGHT sp of
       None \<Rightarrow> Inl (KeyError_int sp)
     | Some h_src \<Rightarrow>
        (case map_of SHELF_HEIGHT dp of
           None \<Rightarrow> Inl (KeyError_int dp)
         | Some h_dst \<Rightarrow>
            (let v = \<bar>h_src - h_dst\<bar> in
             case map_of WEIGHT block of
               None \<Rightarrow> Inl (KeyError_str block)
             | Some w \<Rightarrow>
                 Inr (w * (d + v), \<lparr>distance = d, vertical = v, weight = w\<rparr>))))"

subsection \<open>\<open>apply_move\<close>\<close>

text \<open>
  \<open>slots[loc][pos] = v\<close>: the row is fetched from the grid as it is now and updated in
  place.
\<close>

definition setitem2 :: "slots \<Rightarrow> string \<Rightarrow> int \<Rightarrow> string option \<Rightarrow> error + slots" where
  "setitem2 slots loc pos v =
    (case map_of slots loc of
       None \<Rightarrow> Inl (KeyError_str loc)
     | Some r \<Rightarrow> Inr (AList.update loc (AList.update pos v r) slots))"

text \<open>\<open>slots[loc][pos]\<close>, read.\<close>

definition getitem2 :: "slots \<Rightarrow> string \<Rightarrow> int \<Rightarrow> error + string option" where
  "getitem2 slots loc pos =
    (case map_of slots loc of
       None \<Rightarrow> Inl (KeyError_str loc)
     | Some r \<Rightarrow>
        (case map_of r pos of
           None \<Rightarrow> Inl (KeyError_int pos)
         | Some v \<Rightarrow> Inr v))"

text \<open>
  \<open>apply_move\<close> mutates \<open>slots\<close> and returns nothing, or raises. The model returns
  the outcome together with the grid as the call leaves it, so that what an
  exception leaves behind is part of the result.
\<close>

fun apply_move :: "slots \<Rightarrow> action \<Rightarrow> (error + unit) \<times> slots" where
  "apply_move slots (_, sl, sp, dl, dp, block) =
    (case getitem2 slots sl sp of
       Inl e \<Rightarrow> (Inl e, slots)
     | Inr cur \<Rightarrow>
        if cur \<noteq> Some block then (Inl (ValueError_expected block sl sp cur), slots)
        else
          (case getitem2 slots dl dp of
             Inl e \<Rightarrow> (Inl e, slots)
           | Inr dest \<Rightarrow>
              if dest \<noteq> None then (Inl (ValueError_destination_not_empty dl dp), slots)
              else
                (case setitem2 slots sl sp None of
                   Inl e \<Rightarrow> (Inl e, slots)
                 | Inr slots1 \<Rightarrow>
                    (case setitem2 slots1 dl dp (Some block) of
                       Inl e \<Rightarrow> (Inl e, slots1)
                     | Inr slots2 \<Rightarrow> (Inr (), slots2)))))"

subsection \<open>\<open>start_slots\<close>\<close>

definition start_slots :: "string \<Rightarrow> error + slots" where
  "start_slots sid =
    (if sid = ''s1'' then
       Inr [(''a'', [(1, Some ''a''), (2, Some ''b''), (3, None)]),
            (''b'', [(1, Some ''c''), (2, None), (3, None)]),
            (''c'', [(1, None), (2, None), (3, None)])]
     else if sid = ''s2'' then
       Inr [(''a'', [(1, Some ''c''), (2, Some ''b''), (3, None)]),
            (''b'', [(1, Some ''a''), (2, None), (3, None)]),
            (''c'', [(1, None), (2, None), (3, None)])]
     else if sid = ''s3'' then
       Inr [(''a'', [(1, Some ''a''), (2, Some ''b''), (3, Some ''c'')]),
            (''b'', [(1, None), (2, None), (3, None)]),
            (''c'', [(1, None), (2, None), (3, None)])]
     else if sid = ''s4'' then
       Inr [(''a'', [(1, Some ''a''), (2, Some ''b''), (3, Some ''c'')]),
            (''b'', [(1, None), (2, None), (3, None)]),
            (''c'', [(1, None), (2, None), (3, None)])]
     else Inl (ValueError_unknown_scenario sid))"

subsection \<open>What a run prints and draws\<close>

text \<open>
  The result \<open>run_prolog\<close> hands to \<open>visualize\<close>: the parsed JSON object of the
  planner, with the five fields the code reads. A key of \<open>goal\<close> is the string
  \<open>"loc:pos"\<close>; it is held here in the parsed form \<open>(loc, pos)\<close> that the sort key of
  \<open>format_goal\<close> computes from it, so a key not of that form is outside this model.
\<close>

record solver_result =
  ok :: bool
  plan :: "action list"
  cost :: int
  budget :: int
  goal :: "((string \<times> int) \<times> string) list"

text \<open>\<open>title = f"{sid} (cost={total_cost_from_prolog}, budget={res['budget']})"\<close>\<close>

type_synonym title = "string \<times> int \<times> int"

type_synonym cells = "(string \<times> int \<times> string option) list"

text \<open>
  What a run of \<open>visualize\<close> leaves behind, in the order it happens: an event for each
  thing it prints (a heading together with the formatted lines under it is one event)
  and one for each image file that \<open>draw_grid\<close> saves. An event carries the values
  its text or picture is made from: \<open>Savefig out_dir step title cells dists move\<close> is
  the file \<open>step_NN.png\<close> in \<open>out_dir\<close> showing the cells, the distance labels
  between neighbouring locations (\<open>None\<close> for \<open>"?"\<close>) and the arrow of the move, if
  any. Creating the directory and writing the file are taken to succeed.
\<close>

datatype event =
    Print_scenario string
  | Print_weights "(string \<times> int) list"
  | Print_goal "((string \<times> int) \<times> string) list"
  | Print_no_plan solver_result
  | Print_budget int
  | Print_plan_steps nat
  | Print_total_cost_prolog int
  | Print_initial_state cells
  | Print_step nat action
  | Print_step_cost breakdown int
  | Print_state cells
  | Print_total_cost_python int
  | Print_images_saved string
  | Savefig string nat title cells "int option list" "action option"

text \<open>
  \<open>format_state\<close> and \<open>format_goal\<close> walk the sorted keys and read each value;
  for a dict that is its items in sorted key order.
\<close>

definition format_state :: "slots \<Rightarrow> cells" where
  "format_state slots =
    concat (map (\<lambda>(loc, r). map (\<lambda>(pos, val). (loc, pos, val)) (sort_key fst r))
                (sort_key fst slots))"

definition format_goal :: "((string \<times> int) \<times> string) list \<Rightarrow> ((string \<times> int) \<times> string) list" where
  "format_goal goal_dict = sort_key fst goal_dict"

subsection \<open>\<open>draw_grid\<close>\<close>

text \<open>The two nested loops over \<open>locs\<close> and \<open>pos_ids\<close>, reading \<open>slots[loc][p]\<close>.\<close>

fun draw_row :: "slots \<Rightarrow> string \<Rightarrow> int list \<Rightarrow> error + cells" where
  "draw_row slots loc [] = Inr []"
| "draw_row slots loc (p # ps) =
    (case getitem2 slots loc p of
       Inl e \<Rightarrow> Inl e
     | Inr b \<Rightarrow>
        (case draw_row slots loc ps of
           Inl e \<Rightarrow> Inl e
         | Inr cs \<Rightarrow> Inr ((loc, p, b) # cs)))"

fun draw_cells :: "slots \<Rightarrow> string list \<Rightarrow> int list \<Rightarrow> error + cells" where
  "draw_cells slots [] pos_ids = Inr []"
| "draw_cells slots (loc # locs) pos_ids =
    (case draw_row slots loc pos_ids of
       Inl e \<Rightarrow> Inl e
     | Inr cs \<Rightarrow>
        (case draw_cells slots locs pos_ids of
           Inl e \<Rightarrow> Inl e
         | Inr cs' \<Rightarrow> Inr (cs @ cs')))"

text \<open>
  \<open>next(iter(slots.values()))\<close> raises \<open>StopIteration\<close> on an empty grid, a row
  without one of the positions of the first row raises \<open>KeyError\<close>, and
  \<open>locs.index\<close> raises \<open>ValueError\<close> for a location of the move that is not in the
  grid.
\<close>

definition draw_grid :: "slots \<Rightarrow> nat \<Rightarrow> title \<Rightarrow> string \<Rightarrow> action option \<Rightarrow> error + event" where
  "draw_grid slots step title out_dir current_move =
    (let locs = sort (map fst slots) in
     case slots of
       [] \<Rightarrow> Inl StopIteration
     | (_, r0) # _ \<Rightarrow>
        (let pos_ids = sort (map fst r0) in
         case draw_cells slots locs pos_ids of
           Inl e \<Rightarrow> Inl e
         | Inr cs \<Rightarrow>
            (let ds = map (map_of DIST) (zip locs (tl locs)) in
             case current_move of
               None \<Rightarrow> Inr (Savefig out_dir step title cs ds None)
             | Some (_, sl, sp, dl, dp, block) \<Rightarrow>
                 if sl \<notin> set locs then Inl (ValueError_not_in_list sl)
                 else if dl \<notin> set locs then Inl (ValueError_not_in_list dl)
                 else Inr (Savefig out_dir step title cs ds current_move))))"

subsection \<open>\<open>visualize\<close>\<close>

text \<open>
  The loop over \<open>enumerate(plan, start=1)\<close>. It returns the outcome (the running
  cost, or the exception that stopped it), the grid as it stands then, and the
  events of the steps it ran.
\<close>

fun replay :: "slots \<Rightarrow> title \<Rightarrow> string \<Rightarrow> int \<Rightarrow> nat \<Rightarrow> action list
    \<Rightarrow> (error + int) \<times> slots \<times> event list" where
  "replay slots title out_dir running_cost i [] = (Inr running_cost, slots, [])"
| "replay slots title out_dir running_cost i (act # rest) =
    (case move_cost act of
       Inl e \<Rightarrow> (Inl e, slots, [])
     | Inr (c, br) \<Rightarrow>
        (let running_cost' = running_cost + c;
             out1 = [Print_step i act, Print_step_cost br c]
         in case apply_move slots act of
           (Inl e, slots') \<Rightarrow> (Inl e, slots', out1)
         | (Inr _, slots') \<Rightarrow>
            (let out2 = out1 @ [Print_state (format_state slots')]
             in case draw_grid slots' i title out_dir (Some act) of
               Inl e \<Rightarrow> (Inl e, slots', out2)
             | Inr fr \<Rightarrow>
                (case replay slots' title out_dir running_cost' (Suc i) rest of
                   (r, slots'', out3) \<Rightarrow> (r, slots'', out2 @ [fr] @ out3)))))"

text \<open>
  \<open>visualize\<close>, from the result of \<open>run_prolog\<close> on: the outcome (\<open>Inr ()\<close> for a
  normal return) and the events up to there.
\<close>

definition visualize :: "solver_result \<Rightarrow> string \<Rightarrow> (error + unit) \<times> event list" where
  "visualize res sid =
    (let out0 = [Print_scenario sid, Print_weights (sort_key fst WEIGHT)]
                @ (if goal res \<noteq> [] then [Print_goal (format_goal (goal res))] else [])
     in if \<not> ok res then (Inr (), out0 @ [Print_no_plan res])
     else
       (let total_cost_from_prolog = cost res;
            out1 = out0 @ [Print_budget (budget res), Print_plan_steps (length (plan res)),
                           Print_total_cost_prolog total_cost_from_prolog]
        in case start_slots sid of
          Inl e \<Rightarrow> (Inl e, out1)
        | Inr slots \<Rightarrow>
           (let out2 = out1 @ [Print_initial_state (format_state slots)];
                title = (sid, total_cost_from_prolog, budget res);
                out_dir = ''viz_'' @ sid
            in case draw_grid slots 0 title out_dir None of
              Inl e \<Rightarrow> (Inl e, out2)
            | Inr fr \<Rightarrow>
               (case replay slots title out_dir 0 1 (plan res) of
                  (Inl e, _, out3) \<Rightarrow> (Inl e, out2 @ [fr] @ out3)
                | (Inr running_cost, _, out3) \<Rightarrow>
                    (Inr (), out2 @ [fr] @ out3
                       @ [Print_total_cost_python running_cost,
                          Print_images_saved out_dir])))))"

text \<open>The image files among the events of a run.\<close>

fun is_frame :: "event \<Rightarrow> bool" where
  "is_frame (Savefig _ _ _ _ _ _) = True"
| "is_frame _ = False"

definition frames :: "event list \<Rightarrow> event list" where
  "frames evs = filter is_frame evs"

subsection \<open>Notions used to state the properties\<close>

text \<open>
  The grid \<open>setitem2\<close> returns when the location is there: the row at \<open>loc\<close> with
  \<open>pos\<close> set to \<open>v\<close>, every other row as it was.
\<close>

definition put :: "slots \<Rightarrow> string \<Rightarrow> int \<Rightarrow> string option \<Rightarrow> slots" where
  "put s loc pos v = AList.map_entry loc (AList.update pos v) s"

text \<open>The grid \<open>start_slots\<close> builds for scenario \<open>s1\<close>.\<close>

definition s1_start :: slots where
  "s1_start =
    [(''a'', [(1, Some ''a''), (2, Some ''b''), (3, None)]),
     (''b'', [(1, Some ''c''), (2, None), (3, None)]),
     (''c'', [(1, None), (2, None), (3, None)])]"

text \<open>The keys of the grid and of each row, in order.\<close>

definition shape :: "slots \<Rightarrow> (string \<times> int list) list" where
  "shape s = map (\<lambda>(loc, r). (loc, map fst r)) s"

text \<open>The blocks held by a slot, by a row and by the whole grid, as multisets.\<close>

fun cell_items :: "string option \<Rightarrow> string multiset" where
  "cell_items None = {#}"
| "cell_items (Some b) = {#b#}"

definition row_items :: "row \<Rightarrow> string multiset" where
  "row_items r = sum_list (map (\<lambda>(pos, v). cell_items v) r)"

definition items :: "slots \<Rightarrow> string multiset" where
  "items s = sum_list (map (\<lambda>(loc, r). row_items r) s)"

text \<open>The shape of the four starting grids: locations a, b, c with positions 1, 2, 3.\<close>

definition std_shape :: "(string \<times> int list) list" where
  "std_shape = [(''a'', [1, 2, 3]), (''b'', [1, 2, 3]), (''c'', [1, 2, 3])]"

text \<open>
  A plan passes all per-step validations from grid \<open>s\<close> when, step after step,
  \<open>move_cost\<close> returns a cost and \<open>apply_move\<close> returns normally; \<open>plan_cost\<close> is
  the sum of the costs \<open>move_cost\<close> gives to its moves.
\<close>

fun step_cost :: "action \<Rightarrow> int" where
  "step_cost act = (case move_cost act of Inl _ \<Rightarrow> 0 | Inr (c, _) \<Rightarrow> c)"

definition plan_cost :: "action list \<Rightarrow> int" where
  "plan_cost acts = sum_list (map step_cost acts)"

fun steps_valid :: "slots \<Rightarrow> action list \<Rightarrow> bool" where
  "steps_valid s [] = True"
| "steps_valid s (act # rest) =
    (case move_cost act of
       Inl _ \<Rightarrow> False
     | Inr _ \<Rightarrow>
        (case apply_move s act of
           (Inl _, _) \<Rightarrow> False
         | (Inr _, s') \<Rightarrow> steps_valid s' rest))"

text \<open>
  The solver-reported cost is echoed in three places: the "Total cost (Prolog)" line,
  the title of every image, and the dump of \<open>res\<close> on the "No plan found" line.
  \<open>erase_reported\<close> blanks it there (sets it to 0) and changes nothing else.
\<close>

fun erase_reported :: "event \<Rightarrow> event" where
  "erase_reported (Print_total_cost_prolog c) = Print_total_cost_prolog 0"
| "erase_reported (Savefig d i (sid, c, b) cs ds m) = Savefig d i (sid, 0, b) cs ds m"
| "erase_reported (Print_no_plan r) = Print_no_plan (r\<lparr>cost := 0\<rparr>)"
| "erase_reported e = e"

definition erase_run :: "(error + int) \<times> slots \<times> event list \<Rightarrow> (error + int) \<times> slots \<times> event list" where
  "erase_run x = (case x of (r, s', evs) \<Rightarrow> (r, s', map erase_reported evs))"

section \<open>Properties\<close>

subsection \<open>Association lists and the grid\<close>

lemma update_map_entry:
  "map_of al k = Some x \<Longrightarrow> AList.update k (f x) al = AList.map_entry k f al"
  by (induction al) auto

lemma map_entry_triv:
  "map_of al k = Some x \<Longrightarrow> f x = x \<Longrightarrow> AList.map_entry k f al = al"
  by (induction al) auto

lemma map_entry_cong:
  "map_of al k = Some x \<Longrightarrow> f x = g x \<Longrightarrow> AList.map_entry k f al = AList.map_entry k g al"
  by (induction al) auto

lemma map_entry_twice:
  "AList.map_entry k f (AList.map_entry k g al) = AList.map_entry k (f \<circ> g) al"
  by (induction al) auto

lemma map_entry_commute:
  "k \<noteq> k' \<Longrightarrow> AList.map_entry k f (AList.map_entry k' g al) = AList.map_entry k' g (AList.map_entry k f al)"
  by (induction al) auto

lemma update_commute:
  "k \<noteq> k' \<Longrightarrow> map_of al k = Some x \<Longrightarrow> map_of al k' = Some y \<Longrightarrow>
   AList.update k v (AList.update k' v' al) = AList.update k' v' (AList.update k v al)"
  by (induction al) (auto split: if_splits)

lemma setitem2_put:
  "map_of s loc = Some r \<Longrightarrow> setitem2 s loc pos v = Inr (put s loc pos v)"
  by (simp add: setitem2_def put_def update_map_entry)

lemma map_of_put:
  "map_of (put s loc pos v) loc' =
     (if loc' = loc then map_option (AList.update pos v) (map_of s loc) else map_of s loc')"
  by (simp add: put_def AList.map_of_map_entry split: option.splits)

lemma getitem2_put:
  "map_of s loc = Some r \<Longrightarrow>
   getitem2 (put s loc pos v) loc' pos' =
     (if loc' = loc \<and> pos' = pos then Inr v else getitem2 s loc' pos')"
  by (simp add: getitem2_def map_of_put AList.update_conv')

lemma put_same: "put (put s l p v) l p v' = put s l p v'"
  by (simp add: put_def map_entry_twice comp_def)

lemma put_triv: "getitem2 s l p = Inr v \<Longrightarrow> put s l p v = s"
  by (auto simp: getitem2_def put_def AList.update_triv map_entry_triv split: option.splits)

lemma put_commute:
  assumes "(l, p) \<noteq> (l', p')" "getitem2 s l p = Inr a" "getitem2 s l' p' = Inr b"
  shows "put (put s l p v) l' p' v' = put (put s l' p' v') l p v"
proof (cases "l = l'")
  case False
  then show ?thesis by (simp add: put_def map_entry_commute)
next
  case True
  with assms have pp: "p \<noteq> p'" by simp
  from assms True obtain r where r: "map_of s l = Some r" "map_of r p = Some a" "map_of r p' = Some b"
    by (auto simp: getitem2_def split: option.splits)
  have "AList.update p' v' (AList.update p v r) = AList.update p v (AList.update p' v' r)"
    using update_commute[OF pp r(2) r(3)] by simp
  then have "AList.map_entry l (\<lambda>x. AList.update p' v' (AList.update p v x)) s =
        AList.map_entry l (\<lambda>x. AList.update p v (AList.update p' v' x)) s"
    by (intro map_entry_cong[OF r(1)])
  then show ?thesis using True
    by (simp add: put_def map_entry_twice comp_def)
qed

lemma shape_put: "getitem2 s l p = Inr a \<Longrightarrow> shape (put s l p v) = shape s"
proof (induction s)
  case Nil then show ?case by (simp add: put_def shape_def)
next
  case (Cons x s)
  obtain loc r where x: "x = (loc, r)" by (cases x)
  show ?case
  proof (cases "loc = l")
    case True
    with Cons.prems x have "map_of r p = Some a" by (auto simp: getitem2_def split: option.splits)
    then have "p \<in> set (map fst r)" by (metis map_of_eq_None_iff option.distinct(1) set_map)
    then show ?thesis using True x by (simp add: put_def shape_def AList.update_keys)
  next
    case False
    with Cons.prems x have "getitem2 s l p = Inr a" by (simp add: getitem2_def)
    from Cons.IH[OF this] False x show ?thesis by (simp add: put_def shape_def)
  qed
qed

lemma row_items_update:
  "map_of r p = Some a \<Longrightarrow> row_items (AList.update p v r) + cell_items a = row_items r + cell_items v"
  by (induction r) (auto simp: row_items_def split: if_splits)

lemma items_put:
  "getitem2 s l p = Inr a \<Longrightarrow> items (put s l p v) + cell_items a = items s + cell_items v"
proof (induction s)
  case Nil then show ?case by (simp add: getitem2_def)
next
  case (Cons x s)
  obtain loc r where x: "x = (loc, r)" by (cases x)
  show ?case
  proof (cases "loc = l")
    case True
    with Cons.prems x have "map_of r p = Some a" by (auto simp: getitem2_def split: option.splits)
    from row_items_update[OF this, of v] True x show ?thesis
      by (simp add: put_def items_def add.assoc add.commute add.left_commute)
  next
    case False
    with Cons.prems x have "getitem2 s l p = Inr a" by (simp add: getitem2_def)
    from Cons.IH[OF this] False x show ?thesis by (simp add: put_def items_def add.assoc)
  qed
qed


subsection \<open>\<open>apply_move\<close> and \<open>move_cost\<close>\<close>

declare apply_move.simps [simp del] move_cost.simps [simp del]

lemma apply_move_valid:
  assumes "getitem2 s sl sp = Inr (Some block)" and "getitem2 s dl dp = Inr None"
  shows "apply_move s (t, sl, sp, dl, dp, block) =
           (Inr (), put (put s sl sp None) dl dp (Some block))"
proof -
  from assms(1) obtain rs where rs: "map_of s sl = Some rs"
    by (auto simp: getitem2_def split: option.splits)
  from assms(2) obtain rd where rd: "map_of s dl = Some rd"
    by (auto simp: getitem2_def split: option.splits)
  have 1: "setitem2 s sl sp None = Inr (put s sl sp None)"
    by (rule setitem2_put[OF rs])
  from rd obtain rd' where rd': "map_of (put s sl sp None) dl = Some rd'"
    by (cases "dl = sl") (auto simp: map_of_put rs)
  have 2: "setitem2 (put s sl sp None) dl dp (Some block) =
             Inr (put (put s sl sp None) dl dp (Some block))"
    by (rule setitem2_put[OF rd'])
  show ?thesis using assms by (simp add: apply_move.simps 1 2)
qed

lemma apply_move_error_unchanged:
  "fst (apply_move s act) = Inl e \<Longrightarrow> snd (apply_move s act) = s"
proof -
  assume e: "fst (apply_move s act) = Inl e"
  obtain t sl sp dl dp block where act: "act = (t, sl, sp, dl, dp, block)"
    by (cases act) auto
  show ?thesis
  proof (cases "getitem2 s sl sp = Inr (Some block) \<and> getitem2 s dl dp = Inr None")
    case True
    with e act show ?thesis by (simp add: apply_move_valid)
  next
    case False
    then show ?thesis unfolding act
      by (auto simp: apply_move.simps split: sum.splits)
  qed
qed

lemma DIST_get_same: "DIST_get l l = 0"
  by (simp add: DIST_get_def DIST_def)

lemma DIST_get_absent: "map_of DIST (sl, dl) = None \<Longrightarrow> DIST_get sl dl = 0"
  by (simp add: DIST_get_def)

lemma move_cost_Inr:
  "map_of SHELF_HEIGHT sp = Some h_src \<Longrightarrow> map_of SHELF_HEIGHT dp = Some h_dst \<Longrightarrow>
   map_of WEIGHT block = Some w \<Longrightarrow>
   move_cost (t, sl, sp, dl, dp, block) =
     Inr (w * (DIST_get sl dl + \<bar>h_src - h_dst\<bar>),
          \<lparr>distance = DIST_get sl dl, vertical = \<bar>h_src - h_dst\<bar>, weight = w\<rparr>)"
  by (simp add: move_cost.simps Let_def)

lemma start_slots_s1: "start_slots ''s1'' = Inr s1_start"
  by (simp add: start_slots_def s1_start_def)

lemma getitem2_s1_start:
  "getitem2 s1_start ''a'' 1 = Inr (Some ''a'')"
  "getitem2 s1_start ''a'' 2 = Inr (Some ''b'')"
  "getitem2 s1_start ''a'' 3 = Inr None"
  "getitem2 s1_start ''b'' 1 = Inr (Some ''c'')"
  "getitem2 s1_start ''b'' 2 = Inr None"
  "getitem2 s1_start ''b'' 3 = Inr None"
  "getitem2 s1_start ''c'' 1 = Inr None"
  "getitem2 s1_start ''c'' 2 = Inr None"
  "getitem2 s1_start ''c'' 3 = Inr None"
  by (simp_all add: getitem2_def s1_start_def)

lemma tables:
  "map_of WEIGHT ''a'' = Some 1" "map_of WEIGHT ''b'' = Some 2" "map_of WEIGHT ''c'' = Some 3"
  "map_of SHELF_HEIGHT 1 = Some 1" "map_of SHELF_HEIGHT 2 = Some 3" "map_of SHELF_HEIGHT 3 = Some 5"
  "DIST_get ''a'' ''b'' = 2" "DIST_get ''b'' ''a'' = 2" "DIST_get ''a'' ''c'' = 3"
  "DIST_get ''c'' ''a'' = 3" "DIST_get ''b'' ''c'' = 1" "DIST_get ''c'' ''b'' = 1"
  by (simp_all add: WEIGHT_def SHELF_HEIGHT_def DIST_get_def DIST_def)

lemma getitem2_after_move:
  assumes "getitem2 s sl sp = Inr (Some block)" and "getitem2 s dl dp = Inr None"
  shows "getitem2 (put (put s sl sp None) dl dp (Some block)) loc pos =
           (if loc = dl \<and> pos = dp then Inr (Some block)
            else if loc = sl \<and> pos = sp then Inr None
            else getitem2 s loc pos)"
proof -
  from assms(1) obtain rs where rs: "map_of s sl = Some rs"
    by (auto simp: getitem2_def split: option.splits)
  from assms(2) obtain rd where rd: "map_of s dl = Some rd"
    by (auto simp: getitem2_def split: option.splits)
  from rd obtain rd' where rd': "map_of (put s sl sp None) dl = Some rd'"
    by (cases "dl = sl") (auto simp: map_of_put rs)
  show ?thesis
    by (simp add: getitem2_put[OF rd'] getitem2_put[OF rs])
qed

lemma items_s1_start: "items s1_start = {#''a'', ''b'', ''c''#}"
  by (simp add: items_def row_items_def s1_start_def)

lemma shape_s1_start:
  "shape s1_start = [(''a'', [1, 2, 3]), (''b'', [1, 2, 3]), (''c'', [1, 2, 3])]"
  by (simp add: shape_def s1_start_def)

lemma shape_after_move:
  assumes "getitem2 s sl sp = Inr (Some block)" and "getitem2 s dl dp = Inr None"
  shows "shape (put (put s sl sp None) dl dp (Some block)) = shape s"
proof -
  have "getitem2 (put s sl sp None) dl dp = Inr None"
  proof -
    from assms(1) obtain rs where rs: "map_of s sl = Some rs"
      by (auto simp: getitem2_def split: option.splits)
    show ?thesis using assms(2) by (simp add: getitem2_put[OF rs])
  qed
  then have "shape (put (put s sl sp None) dl dp (Some block)) = shape (put s sl sp None)"
    by (rule shape_put)
  also have "\<dots> = shape s" by (rule shape_put[OF assms(1)])
  finally show ?thesis .
qed

lemma items_after_move:
  assumes "getitem2 s sl sp = Inr (Some block)" and "getitem2 s dl dp = Inr None"
  shows "items (put (put s sl sp None) dl dp (Some block)) = items s"
proof -
  from assms(1) obtain rs where rs: "map_of s sl = Some rs"
    by (auto simp: getitem2_def split: option.splits)
  have d: "getitem2 (put s sl sp None) dl dp = Inr None"
    using assms(2) by (simp add: getitem2_put[OF rs])
  have 1: "items (put s sl sp None) + {#block#} = items s"
    using items_put[OF assms(1), of None] by simp
  have 2: "items (put (put s sl sp None) dl dp (Some block)) = items (put s sl sp None) + {#block#}"
    using items_put[OF d, of "Some block"] by simp
  show ?thesis using 1 2 by simp
qed

subsection \<open>\<open>draw_grid\<close>, \<open>replay\<close> and \<open>visualize\<close>\<close>

lemma shape_std_D:
  assumes "shape s = std_shape"
  shows "\<exists>a1 a2 a3 b1 b2 b3 c1 c2 c3.
     s = [(''a'', [(1, a1), (2, a2), (3, a3)]),
          (''b'', [(1, b1), (2, b2), (3, b3)]),
          (''c'', [(1, c1), (2, c2), (3, c3)])]"
  using assms by (auto simp: shape_def std_shape_def map_eq_Cons_conv)

lemma draw_grid_std:
  assumes "shape s = std_shape"
  shows "draw_grid s i ttl d None = Inr (Savefig d i ttl (format_state s) [Some 2, Some 1] None)"
proof -
  from shape_std_D[OF assms] obtain a1 a2 a3 b1 b2 b3 c1 c2 c3 where
     s: "s = [(''a'', [(1, a1), (2, a2), (3, a3)]),
          (''b'', [(1, b1), (2, b2), (3, b3)]),
          (''c'', [(1, c1), (2, c2), (3, c3)])]" by blast
  show ?thesis unfolding s
    by (simp add: draw_grid_def format_state_def getitem2_def DIST_def)
qed

lemma draw_grid_std_move:
  assumes "shape s = std_shape" and "map_of s sl = Some rs" and "map_of s dl = Some rd"
  shows "draw_grid s i ttl d (Some (t, sl, sp, dl, dp, block)) =
    Inr (Savefig d i ttl (format_state s) [Some 2, Some 1] (Some (t, sl, sp, dl, dp, block)))"
proof -
  from shape_std_D[OF assms(1)] obtain a1 a2 a3 b1 b2 b3 c1 c2 c3 where
     s: "s = [(''a'', [(1, a1), (2, a2), (3, a3)]),
          (''b'', [(1, b1), (2, b2), (3, b3)]),
          (''c'', [(1, c1), (2, c2), (3, c3)])]" by blast
  have "sl \<in> {''a'', ''b'', ''c''}" "dl \<in> {''a'', ''b'', ''c''}"
    using assms(2,3) unfolding s by (auto split: if_splits)
  then show ?thesis unfolding s
    by (auto simp add: draw_grid_def format_state_def getitem2_def DIST_def)
qed

lemma start_slots_shape: "start_slots sid = Inr s0 \<Longrightarrow> shape s0 = std_shape"
  by (auto simp: start_slots_def shape_def std_shape_def split: if_splits)

lemma apply_move_Inr_D:
  assumes "apply_move s (t, sl, sp, dl, dp, block) = (Inr u, s')"
  shows "getitem2 s sl sp = Inr (Some block)" and "getitem2 s dl dp = Inr None"
    and "s' = put (put s sl sp None) dl dp (Some block)"
proof -
  show 1: "getitem2 s sl sp = Inr (Some block)"
    using assms by (auto simp: apply_move.simps split: sum.splits if_splits)
  show 2: "getitem2 s dl dp = Inr None"
    using assms by (auto simp: apply_move.simps split: sum.splits if_splits)
  show "s' = put (put s sl sp None) dl dp (Some block)"
    using assms by (simp add: apply_move_valid[OF 1 2])
qed

lemma replay_valid:
  "shape s = std_shape \<Longrightarrow> steps_valid s acts \<Longrightarrow>
   \<exists>s' evs. replay s ttl d rc i acts = (Inr (rc + plan_cost acts), s', evs)"
proof (induction acts arbitrary: s rc i)
  case Nil
  then show ?case by (simp add: plan_cost_def)
next
  case (Cons act acts)
  obtain t sl sp dl dp block where act: "act = (t, sl, sp, dl, dp, block)"
    by (cases act) auto
  from Cons.prems(2) obtain c br where mc: "move_cost act = Inr (c, br)"
    by (auto split: sum.splits)
  obtain r1 s1 where am0: "apply_move s act = (r1, s1)"
    by (cases "apply_move s act") auto
  from Cons.prems(2) mc am0 obtain u where r1: "r1 = Inr u"
    by (cases r1) auto
  from Cons.prems(2) mc am0 r1 have sv: "steps_valid s1 acts"
    by simp
  from am0 r1 have am: "apply_move s act = (Inr u, s1)" by simp
  note D = apply_move_Inr_D[OF am[unfolded act]]
  have sh: "shape s1 = std_shape"
    using shape_after_move[OF D(1) D(2)] D(3) Cons.prems(1) by simp
  have "getitem2 s1 sl sp = Inr None" "getitem2 s1 dl dp = Inr (Some block)"
    using D by (auto simp: getitem2_after_move[OF D(1) D(2)])
  then obtain rs rd where "map_of s1 sl = Some rs" "map_of s1 dl = Some rd"
    by (auto simp: getitem2_def split: option.splits)
  from draw_grid_std_move[OF sh this]
  have dg: "draw_grid s1 i ttl d (Some act) =
    Inr (Savefig d i ttl (format_state s1) [Some 2, Some 1] (Some act))"
    by (simp add: act)
  from Cons.IH[OF sh sv, of "rc + c" "Suc i"] obtain s' evs where
    "replay s1 ttl d (rc + c) (Suc i) acts = (Inr (rc + c + plan_cost acts), s', evs)"
    by blast
  then show ?case using mc am dg
    by (simp add: plan_cost_def Let_def)
qed


lemma draw_grid_erase:
  "map_sum id erase_reported (draw_grid s i (sid, c', b) d m)
     = map_sum id erase_reported (draw_grid s i (sid, c, b) d m)"
  by (simp add: draw_grid_def Let_def split: list.splits sum.splits option.splits prod.splits)

lemma draw_grid_erase_cases:
  obtains (err) e where "draw_grid s i (sid, c', b) d m = Inl e"
      and "draw_grid s i (sid, c, b) d m = Inl e"
  | (frame) fr' fr where "draw_grid s i (sid, c', b) d m = Inr fr'"
      and "draw_grid s i (sid, c, b) d m = Inr fr"
      and "erase_reported fr' = erase_reported fr"
  using draw_grid_erase[of s i sid c' b d m c]
  by (cases "draw_grid s i (sid, c', b) d m"; cases "draw_grid s i (sid, c, b) d m") auto

lemma replay_erase:
  "erase_run (replay s (sid, c', b) d rc i acts) = erase_run (replay s (sid, c, b) d rc i acts)"
proof (induction acts arbitrary: s rc i)
  case Nil
  show ?case by simp
next
  case (Cons act acts)
  show ?case
  proof (cases "move_cost act")
    case (Inl e)
    then show ?thesis by simp
  next
    case (Inr cb)
    obtain cst br where cb: "cb = (cst, br)" by (cases cb)
    obtain r1 s1 where am: "apply_move s act = (r1, s1)" by (cases "apply_move s act")
    show ?thesis
    proof (cases r1)
      case (Inl e)
      then show ?thesis using Inr cb am by (simp add: erase_run_def)
    next
      case r1: (Inr u)
      show ?thesis
      proof (cases rule: draw_grid_erase_cases[of s1 i sid c' b d "Some act" c])
        case (err e)
        then show ?thesis using Inr cb am r1 by (simp add: erase_run_def)
      next
        case (frame fr' fr)
        from Cons.IH[of s1 "rc + cst" "Suc i"] frame
        show ?thesis using Inr cb am r1
          by (simp add: erase_run_def split: prod.splits)
      qed
    qed
  qed
qed

lemma visualize_erase:
  "fst (visualize (res\<lparr>cost := c'\<rparr>) sid) = fst (visualize res sid)
   \<and> map erase_reported (snd (visualize (res\<lparr>cost := c'\<rparr>) sid))
       = map erase_reported (snd (visualize res sid))"
proof (cases "ok res")
  case False
  then show ?thesis by (simp add: visualize_def Let_def)
next
  case True
  show ?thesis
  proof (cases "start_slots sid")
    case (Inl e)
    then show ?thesis using True by (simp add: visualize_def Let_def)
  next
    case (Inr s0)
    show ?thesis
    proof (cases rule: draw_grid_erase_cases[of s0 0 sid c' "budget res" "''viz_'' @ sid" None "cost res"])
      case (err e)
      then show ?thesis using True Inr by (simp add: visualize_def Let_def)
    next
      case (frame fr' fr)
      from replay_erase[of s0 sid c' "budget res" "''viz_'' @ sid" 0 1 "plan res" "cost res"]
      show ?thesis using True Inr frame
        by (auto simp add: visualize_def Let_def erase_run_def split: prod.splits sum.splits)
    qed
  qed
qed

lemma draw_grid_not_prolog: "draw_grid s i ttl d m \<noteq> Inr (Print_total_cost_prolog c)"
  by (simp add: draw_grid_def Let_def split: list.splits sum.splits option.splits prod.splits)

lemma replay_not_prolog:
  "Print_total_cost_prolog c \<notin> set (snd (snd (replay s ttl d rc i acts)))"
proof (induction acts arbitrary: s rc i)
  case Nil
  show ?case by simp
next
  case (Cons act acts)
  show ?case
  proof (cases "move_cost act")
    case (Inl e)
    then show ?thesis by simp
  next
    case (Inr cb)
    obtain cst br where cb: "cb = (cst, br)" by (cases cb)
    obtain r1 s1 where am: "apply_move s act = (r1, s1)" by (cases "apply_move s act")
    show ?thesis
    proof (cases r1)
      case (Inl e)
      then show ?thesis using Inr cb am by simp
    next
      case r1: (Inr u)
      show ?thesis
      proof (cases "draw_grid s1 i ttl d (Some act)")
        case (Inl e)
        then show ?thesis using Inr cb am r1 by simp
      next
        case fr: (Inr fr)
        with draw_grid_not_prolog[of s1 i ttl d "Some act" c]
        have ne: "fr \<noteq> Print_total_cost_prolog c" by auto
        from Cons.IH[of s1 "rc + cst" "Suc i"] ne
        show ?thesis using Inr cb am r1 fr
          by (auto split: prod.splits)
      qed
    qed
  qed
qed

lemma visualize_valid:
  assumes "ok res" and "start_slots sid = Inr s0" and "steps_valid s0 (plan res)"
  shows "\<exists>s' evs.
      replay s0 (sid, cost res, budget res) (''viz_'' @ sid) 0 1 (plan res)
        = (Inr (plan_cost (plan res)), s', evs)
    \<and> Print_total_cost_prolog (cost res) \<notin> set evs
    \<and> visualize res sid =
       (Inr (),
        [Print_scenario sid, Print_weights (sort_key fst WEIGHT)]
        @ (if goal res \<noteq> [] then [Print_goal (format_goal (goal res))] else [])
        @ [Print_budget (budget res), Print_plan_steps (length (plan res)),
           Print_total_cost_prolog (cost res),
           Print_initial_state (format_state s0),
           Savefig (''viz_'' @ sid) 0 (sid, cost res, budget res) (format_state s0)
             [Some 2, Some 1] None]
        @ evs
        @ [Print_total_cost_python (plan_cost (plan res)),
           Print_images_saved (''viz_'' @ sid)])"
proof -
  have sh: "shape s0 = std_shape" by (rule start_slots_shape[OF assms(2)])
  from replay_valid[OF sh assms(3), of "(sid, cost res, budget res)" "''viz_'' @ sid" 0 1]
  obtain s' evs where
    r: "replay s0 (sid, cost res, budget res) (''viz_'' @ sid) 0 1 (plan res)
       = (Inr (plan_cost (plan res)), s', evs)" by auto
  have n: "Print_total_cost_prolog (cost res) \<notin> set evs"
    using replay_not_prolog[of "cost res" s0 "(sid, cost res, budget res)" "''viz_'' @ sid" 0 1
        "plan res"] r by simp
  have v: "visualize res sid =
       (Inr (),
        [Print_scenario sid, Print_weights (sort_key fst WEIGHT)]
        @ (if goal res \<noteq> [] then [Print_goal (format_goal (goal res))] else [])
        @ [Print_budget (budget res), Print_plan_steps (length (plan res)),
           Print_total_cost_prolog (cost res),
           Print_initial_state (format_state s0),
           Savefig (''viz_'' @ sid) 0 (sid, cost res, budget res) (format_state s0)
             [Some 2, Some 1] None]
        @ evs
        @ [Print_total_cost_python (plan_cost (plan res)),
           Print_images_saved (''viz_'' @ sid)])"
    using r assms(1,2) draw_grid_std[OF sh]
    by (simp add: visualize_def Let_def)
  from r n v show ?thesis by blast
qed

lemma steps_valid_example: "steps_valid s1_start [(''move'', ''a'', 1, ''c'', 2, ''a'')]"
  using move_cost_Inr[OF tables(4) tables(5) tables(1), of "''move''" "''a''" "''c''"]
    apply_move_valid[OF getitem2_s1_start(1) getitem2_s1_start(8), of "''move''"]
  by simp

lemma plan_cost_example: "plan_cost [(''move'', ''a'', 1, ''c'', 2, ''a'')] = 5"
  using move_cost_Inr[OF tables(4) tables(5) tables(1), of "''move''" "''a''" "''c''"]
  by (simp add: plan_cost_def tables)

section \<open>The claims\<close>

text \<open>
  C2. For every move whose slot positions are in the height table and whose item is in
  the weight table, \<open>move_cost\<close> returns
  \<open>weight(item) * (distance(sourceLoc, destLoc) + |height(sourceSlot) - height(destSlot)|)\<close>
  together with that breakdown. The tables have weight(a) = 1, distance(a, c) = 3,
  height(1) = 1 and height(2) = 3, so the move \<open>["move","a",1,"c",2,"a"]\<close> costs
  \<open>1 * (3 + 2) = 5\<close>; and \<open>apply_move\<close> on any grid with a:1 = "a" and c:2 empty
  returns normally and leaves a:1 empty and c:2 = "a".
\<close>

theorem move_cost_formula:
  "(map_of SHELF_HEIGHT sp = Some h_src \<and> map_of SHELF_HEIGHT dp = Some h_dst
      \<and> map_of WEIGHT block = Some w \<longrightarrow>
      move_cost (t, sl, sp, dl, dp, block) =
        Inr (w * (DIST_get sl dl + \<bar>h_src - h_dst\<bar>),
             \<lparr>distance = DIST_get sl dl, vertical = \<bar>h_src - h_dst\<bar>, weight = w\<rparr>))
   \<and> map_of WEIGHT ''a'' = Some 1 \<and> DIST_get ''a'' ''c'' = 3
   \<and> map_of SHELF_HEIGHT 1 = Some 1 \<and> map_of SHELF_HEIGHT 2 = Some 3
   \<and> move_cost (''move'', ''a'', 1, ''c'', 2, ''a'') =
        Inr (1 * (3 + 2), \<lparr>distance = 3, vertical = 2, weight = 1\<rparr>)
   \<and> (getitem2 s ''a'' 1 = Inr (Some ''a'') \<and> getitem2 s ''c'' 2 = Inr None \<longrightarrow>
        fst (apply_move s (''move'', ''a'', 1, ''c'', 2, ''a'')) = Inr ()
        \<and> getitem2 (snd (apply_move s (''move'', ''a'', 1, ''c'', 2, ''a''))) ''a'' 1 = Inr None
        \<and> getitem2 (snd (apply_move s (''move'', ''a'', 1, ''c'', 2, ''a''))) ''c'' 2 = Inr (Some ''a''))"
proof -
  have ex: "move_cost (''move'', ''a'', 1, ''c'', 2, ''a'') =
        Inr (1 * (3 + 2), \<lparr>distance = 3, vertical = 2, weight = 1\<rparr>)"
    using move_cost_Inr[OF tables(4) tables(5) tables(1), of "''move''" "''a''" "''c''"]
    by (simp add: tables)
  have ap: "fst (apply_move s (''move'', ''a'', 1, ''c'', 2, ''a'')) = Inr ()
        \<and> getitem2 (snd (apply_move s (''move'', ''a'', 1, ''c'', 2, ''a''))) ''a'' 1 = Inr None
        \<and> getitem2 (snd (apply_move s (''move'', ''a'', 1, ''c'', 2, ''a''))) ''c'' 2 = Inr (Some ''a'')"
    if h: "getitem2 s ''a'' 1 = Inr (Some ''a'')" "getitem2 s ''c'' 2 = Inr None"
    by (simp add: apply_move_valid[OF h] getitem2_after_move[OF h])
  show ?thesis
    using tables ex ap move_cost_Inr[of sp h_src dp h_dst block w t sl dl] by blast
qed

theorem move_cost_formula_witness:
  "map_of SHELF_HEIGHT 3 = Some 5 \<and> map_of SHELF_HEIGHT 1 = Some 1 \<and> map_of WEIGHT ''b'' = Some 2
   \<and> move_cost (''move'', ''b'', 3, ''a'', 1, ''b'') =
        Inr (12, \<lparr>distance = 2, vertical = 4, weight = 2\<rparr>)
   \<and> getitem2 s1_start ''a'' 1 = Inr (Some ''a'') \<and> getitem2 s1_start ''c'' 2 = Inr None
   \<and> fst (apply_move s1_start (''move'', ''a'', 1, ''c'', 2, ''a'')) = Inr ()
   \<and> getitem2 (snd (apply_move s1_start (''move'', ''a'', 1, ''c'', 2, ''a''))) ''a'' 1 = Inr None
   \<and> getitem2 (snd (apply_move s1_start (''move'', ''a'', 1, ''c'', 2, ''a''))) ''c'' 2
        = Inr (Some ''a'')"
  using move_cost_formula[of 3 5 1 1 "''b''" 2 "''move''" "''b''" "''a''" s1_start]
  by (simp add: tables getitem2_s1_start)

text \<open>
  C3, as the code has it. If the source slot exists and its value is not the move's
  block, \<open>apply_move\<close> raises the "Expected ..." \<open>ValueError\<close> and the grid is
  unchanged. If the source slot holds the block and the destination slot exists and is
  occupied, it raises the "Destination not empty ..." \<open>ValueError\<close> and the grid is
  unchanged. The source is checked first. Whatever exception \<open>apply_move\<close> raises,
  the grid is as it was before the call.
\<close>

theorem apply_move_precondition_errors:
  "(getitem2 s sl sp = Inr cur \<and> cur \<noteq> Some block \<longrightarrow>
      apply_move s (t, sl, sp, dl, dp, block) = (Inl (ValueError_expected block sl sp cur), s))
   \<and> (getitem2 s sl sp = Inr (Some block) \<and> getitem2 s dl dp = Inr (Some x) \<longrightarrow>
      apply_move s (t, sl, sp, dl, dp, block) = (Inl (ValueError_destination_not_empty dl dp), s))
   \<and> (fst (apply_move s (t, sl, sp, dl, dp, block)) = Inl e \<longrightarrow>
      snd (apply_move s (t, sl, sp, dl, dp, block)) = s)"
  using apply_move_error_unchanged[of s "(t, sl, sp, dl, dp, block)" e]
  by (simp add: apply_move.simps)

theorem apply_move_precondition_errors_witness:
  "getitem2 s1_start ''a'' 2 = Inr (Some ''b'') \<and> Some ''b'' \<noteq> Some ''a''
   \<and> apply_move s1_start (''move'', ''a'', 2, ''c'', 1, ''a'')
       = (Inl (ValueError_expected ''a'' ''a'' 2 (Some ''b'')), s1_start)
   \<and> getitem2 s1_start ''a'' 1 = Inr (Some ''a'') \<and> getitem2 s1_start ''b'' 1 = Inr (Some ''c'')
   \<and> apply_move s1_start (''move'', ''a'', 1, ''b'', 1, ''a'')
       = (Inl (ValueError_destination_not_empty ''b'' 1), s1_start)"
  using apply_move_precondition_errors[where s = s1_start and sl = "''a''" and sp = 2
      and cur = "Some ''b''" and block = "''a''" and t = "''move''" and dl = "''c''" and dp = 1
      and x = "''b''"]
    apply_move_precondition_errors[where s = s1_start and sl = "''a''" and sp = 1
      and cur = "Some ''a''" and block = "''a''" and t = "''move''" and dl = "''b''" and dp = 1
      and x = "''c''"]
  by (simp add: getitem2_s1_start)

text \<open>
  C3 as stated fails where both checks would fire: on the starting grid of \<open>s1\<close> the
  move \<open>["move","a",3,"a",1,"c"]\<close> has an occupied destination (a:1 holds "a"), and
  \<open>apply_move\<close> raises the "Expected c at a:3, found None" error, not the
  "Destination not empty" one.
\<close>

theorem apply_move_destination_occupied_counterexample:
  "getitem2 s1_start ''a'' 1 = Inr (Some ''a'')
   \<and> apply_move s1_start (''move'', ''a'', 3, ''a'', 1, ''c'')
       = (Inl (ValueError_expected ''c'' ''a'' 3 None), s1_start)
   \<and> fst (apply_move s1_start (''move'', ''a'', 3, ''a'', 1, ''c''))
       \<noteq> Inl (ValueError_destination_not_empty ''a'' 1)"
  by (simp add: apply_move.simps getitem2_s1_start)

text \<open>
  C4. For every grid and every valid move (the source slot holds the declared block and
  the destination slot is empty, so the two slots differ), applying the move and then
  the reverse move, with source and destination swapped and the same block, gives back
  the original grid exactly.
\<close>

theorem apply_move_round_trip:
  assumes "getitem2 s sl sp = Inr (Some block)" and "getitem2 s dl dp = Inr None"
  shows "(sl, sp) \<noteq> (dl, dp)
     \<and> fst (apply_move s (t, sl, sp, dl, dp, block)) = Inr ()
     \<and> apply_move (snd (apply_move s (t, sl, sp, dl, dp, block))) (t', dl, dp, sl, sp, block)
         = (Inr (), s)"
proof -
  let ?s' = "put (put s sl sp None) dl dp (Some block)"
  have ne: "(sl, sp) \<noteq> (dl, dp)" using assms by auto
  have fwd: "apply_move s (t, sl, sp, dl, dp, block) = (Inr (), ?s')"
    by (rule apply_move_valid[OF assms])
  have d: "getitem2 ?s' dl dp = Inr (Some block)" and e: "getitem2 ?s' sl sp = Inr None"
    using ne by (auto simp: getitem2_after_move[OF assms])
  have bwd: "apply_move ?s' (t', dl, dp, sl, sp, block)
                = (Inr (), put (put ?s' dl dp None) sl sp (Some block))"
    by (rule apply_move_valid[OF d e])
  have "put ?s' dl dp None = put (put s sl sp None) dl dp None"
    by (rule put_same)
  also have "\<dots> = put (put s dl dp None) sl sp None"
    by (rule put_commute[OF ne assms])
  also have "\<dots> = put s sl sp None"
    by (simp add: put_triv[OF assms(2)])
  finally have "put (put ?s' dl dp None) sl sp (Some block) = put (put s sl sp None) sl sp (Some block)"
    by simp
  also have "\<dots> = s"
    by (simp add: put_same put_triv[OF assms(1)])
  finally show ?thesis using ne fwd bwd by simp
qed

theorem apply_move_round_trip_witness:
  "getitem2 s1_start ''a'' 2 = Inr (Some ''b'') \<and> getitem2 s1_start ''c'' 3 = Inr None
   \<and> fst (apply_move s1_start (''move'', ''a'', 2, ''c'', 3, ''b'')) = Inr ()
   \<and> apply_move (snd (apply_move s1_start (''move'', ''a'', 2, ''c'', 3, ''b'')))
         (''move'', ''c'', 3, ''a'', 2, ''b'') = (Inr (), s1_start)"
  using apply_move_round_trip[of s1_start "''a''" 2 "''b''" "''c''" 3 "''move''" "''move''"]
  by (simp add: getitem2_s1_start)

text \<open>
  C5. For every grid and every valid move, the multiset of blocks held by the slots is
  the same before and after \<open>apply_move\<close>, and every slot of the resulting grid
  holds at most one block.
\<close>

theorem apply_move_conserves_items:
  assumes "getitem2 s sl sp = Inr (Some block)" and "getitem2 s dl dp = Inr None"
  shows "fst (apply_move s (t, sl, sp, dl, dp, block)) = Inr ()
     \<and> items (snd (apply_move s (t, sl, sp, dl, dp, block))) = items s
     \<and> (\<forall>loc pos v. getitem2 (snd (apply_move s (t, sl, sp, dl, dp, block))) loc pos = Inr v
          \<longrightarrow> size (cell_items v) \<le> 1)"
proof -
  have "size (cell_items v) \<le> 1" for v by (cases v) simp_all
  then show ?thesis
    by (simp add: apply_move_valid[OF assms] items_after_move[OF assms])
qed

theorem apply_move_conserves_items_witness:
  "getitem2 s1_start ''a'' 2 = Inr (Some ''b'') \<and> getitem2 s1_start ''b'' 2 = Inr None
   \<and> fst (apply_move s1_start (''move'', ''a'', 2, ''b'', 2, ''b'')) = Inr ()
   \<and> items (snd (apply_move s1_start (''move'', ''a'', 2, ''b'', 2, ''b''))) = {#''a'', ''b'', ''c''#}
   \<and> getitem2 (snd (apply_move s1_start (''move'', ''a'', 2, ''b'', 2, ''b''))) ''b'' 2
        = Inr (Some ''b'')
   \<and> size (cell_items (Some ''b'')) \<le> 1"
proof -
  have h: "getitem2 s1_start ''a'' 2 = Inr (Some ''b'')" "getitem2 s1_start ''b'' 2 = Inr None"
    by (simp_all add: getitem2_s1_start)
  have g: "getitem2 (snd (apply_move s1_start (''move'', ''a'', 2, ''b'', 2, ''b''))) ''b'' 2
        = Inr (Some ''b'')"
    by (simp add: apply_move_valid[OF h] getitem2_after_move[OF h])
  from apply_move_conserves_items[OF h, of "''move''"] g h show ?thesis
    by (simp add: items_s1_start)
qed

text \<open>
  C6. Applying a valid move changes the grid only at the two touched slots: the source
  slot becomes empty, the destination slot holds the block, every other
  (location, position) reads as before, and no key is added, removed or reordered.
\<close>

theorem apply_move_frame:
  assumes "getitem2 s sl sp = Inr (Some block)" and "getitem2 s dl dp = Inr None"
  shows "fst (apply_move s (t, sl, sp, dl, dp, block)) = Inr ()
     \<and> getitem2 (snd (apply_move s (t, sl, sp, dl, dp, block))) sl sp = Inr None
     \<and> getitem2 (snd (apply_move s (t, sl, sp, dl, dp, block))) dl dp = Inr (Some block)
     \<and> (\<forall>loc pos. (loc, pos) \<noteq> (sl, sp) \<and> (loc, pos) \<noteq> (dl, dp) \<longrightarrow>
          getitem2 (snd (apply_move s (t, sl, sp, dl, dp, block))) loc pos = getitem2 s loc pos)
     \<and> shape (snd (apply_move s (t, sl, sp, dl, dp, block))) = shape s"
proof -
  have ne: "(sl, sp) \<noteq> (dl, dp)" using assms by auto
  then show ?thesis
    by (auto simp: apply_move_valid[OF assms] getitem2_after_move[OF assms]
        shape_after_move[OF assms])
qed

theorem apply_move_frame_witness:
  "getitem2 s1_start ''a'' 1 = Inr (Some ''a'') \<and> getitem2 s1_start ''c'' 2 = Inr None
   \<and> fst (apply_move s1_start (''move'', ''a'', 1, ''c'', 2, ''a'')) = Inr ()
   \<and> getitem2 (snd (apply_move s1_start (''move'', ''a'', 1, ''c'', 2, ''a''))) ''a'' 1 = Inr None
   \<and> getitem2 (snd (apply_move s1_start (''move'', ''a'', 1, ''c'', 2, ''a''))) ''c'' 2
        = Inr (Some ''a'')
   \<and> (''b'', 1) \<noteq> (''a'', 1) \<and> (''b'', 1) \<noteq> (''c'', 2)
   \<and> getitem2 (snd (apply_move s1_start (''move'', ''a'', 1, ''c'', 2, ''a''))) ''b'' 1
        = Inr (Some ''c'')
   \<and> shape (snd (apply_move s1_start (''move'', ''a'', 1, ''c'', 2, ''a'')))
        = [(''a'', [1, 2, 3]), (''b'', [1, 2, 3]), (''c'', [1, 2, 3])]"
proof -
  have h: "getitem2 s1_start ''a'' 1 = Inr (Some ''a'')" "getitem2 s1_start ''c'' 2 = Inr None"
    by (simp_all add: getitem2_s1_start)
  from apply_move_frame[OF h, of "''move''"] h show ?thesis
    by (simp add: getitem2_s1_start shape_s1_start)
qed

text \<open>
  C7. In \<open>move_cost\<close>, the distance of a location pair that is not in \<open>DIST\<close> is
  the default 0 and the cost is computed with it, while a source or destination
  position that is not in \<open>SHELF_HEIGHT\<close>, or a block that is not in \<open>WEIGHT\<close>,
  raises \<open>KeyError\<close> with that key.
\<close>

theorem move_cost_lookups:
  "(map_of DIST (sl, dl) = None \<longrightarrow> DIST_get sl dl = 0)
   \<and> (map_of DIST (sl, dl) = None \<and> map_of SHELF_HEIGHT sp = Some h_src
      \<and> map_of SHELF_HEIGHT dp = Some h_dst \<and> map_of WEIGHT block = Some w \<longrightarrow>
      move_cost (t, sl, sp, dl, dp, block) =
        Inr (w * (0 + \<bar>h_src - h_dst\<bar>),
             \<lparr>distance = 0, vertical = \<bar>h_src - h_dst\<bar>, weight = w\<rparr>))
   \<and> (map_of SHELF_HEIGHT sp = None \<longrightarrow>
        move_cost (t, sl, sp, dl, dp, block) = Inl (KeyError_int sp))
   \<and> (map_of SHELF_HEIGHT sp = Some h_src \<and> map_of SHELF_HEIGHT dp = None \<longrightarrow>
        move_cost (t, sl, sp, dl, dp, block) = Inl (KeyError_int dp))
   \<and> (map_of SHELF_HEIGHT sp = Some h_src \<and> map_of SHELF_HEIGHT dp = Some h_dst
        \<and> map_of WEIGHT block = None \<longrightarrow>
        move_cost (t, sl, sp, dl, dp, block) = Inl (KeyError_str block))"
  by (simp add: move_cost.simps Let_def DIST_get_absent)

theorem move_cost_lookups_witness:
  "map_of DIST (''a'', ''d'') = None \<and> DIST_get ''a'' ''d'' = 0 \<and> map_of SHELF_HEIGHT 1 = Some 1
   \<and> map_of SHELF_HEIGHT 3 = Some 5 \<and> map_of WEIGHT ''c'' = Some 3
   \<and> move_cost (''move'', ''a'', 1, ''d'', 3, ''c'')
        = Inr (12, \<lparr>distance = 0, vertical = 4, weight = 3\<rparr>)
   \<and> map_of SHELF_HEIGHT 4 = None
   \<and> move_cost (''move'', ''a'', 4, ''b'', 1, ''a'') = Inl (KeyError_int 4)
   \<and> map_of SHELF_HEIGHT 0 = None
   \<and> move_cost (''move'', ''a'', 1, ''b'', 0, ''a'') = Inl (KeyError_int 0)
   \<and> map_of WEIGHT ''z'' = None
   \<and> move_cost (''move'', ''a'', 1, ''b'', 3, ''z'') = Inl (KeyError_str ''z'')"
  using move_cost_lookups[of "''a''" "''d''" 1 1 3 5 "''c''" 3 "''move''"]
    move_cost_lookups[of "''a''" "''b''" 4 0 1 1 "''a''" 1 "''move''"]
    move_cost_lookups[of "''a''" "''b''" 1 1 0 0 "''a''" 1 "''move''"]
    move_cost_lookups[of "''a''" "''b''" 1 1 3 5 "''z''" 0 "''move''"]
  by (simp add: tables DIST_def SHELF_HEIGHT_def WEIGHT_def)

text \<open>
  C10. A move whose source (location, position) is also its destination never
  succeeds: when the source slot holds the declared block, \<open>apply_move\<close> raises the
  "Destination not empty ..." \<open>ValueError\<close> and leaves the grid unchanged. Yet
  \<open>move_cost\<close> prices it at 0, with distance 0 (no pair (l, l) is in \<open>DIST\<close>) and
  vertical offset 0, whenever the position and the block are in the tables.
\<close>

theorem self_move_rejected:
  "fst (apply_move s (t, sl, sp, sl, sp, block)) \<noteq> Inr ()
   \<and> (getitem2 s sl sp = Inr (Some block) \<longrightarrow>
      apply_move s (t, sl, sp, sl, sp, block)
        = (Inl (ValueError_destination_not_empty sl sp), s))
   \<and> (map_of SHELF_HEIGHT sp = Some h \<and> map_of WEIGHT block = Some w \<longrightarrow>
      move_cost (t, sl, sp, sl, sp, block)
        = Inr (0, \<lparr>distance = 0, vertical = 0, weight = w\<rparr>))
   \<and> (\<forall>c br. move_cost (t, sl, sp, sl, sp, block) = Inr (c, br) \<longrightarrow>
        c = 0 \<and> distance br = 0 \<and> vertical br = 0)"
  by (auto simp: apply_move.simps move_cost.simps Let_def DIST_get_same
      split: option.splits sum.splits)

theorem self_move_rejected_witness:
  "getitem2 s1_start ''a'' 2 = Inr (Some ''b'')
   \<and> apply_move s1_start (''move'', ''a'', 2, ''a'', 2, ''b'')
        = (Inl (ValueError_destination_not_empty ''a'' 2), s1_start)
   \<and> map_of SHELF_HEIGHT 2 = Some 3 \<and> map_of WEIGHT ''b'' = Some 2
   \<and> move_cost (''move'', ''a'', 2, ''a'', 2, ''b'')
        = Inr (0, \<lparr>distance = 0, vertical = 0, weight = 2\<rparr>)"
  using self_move_rejected[where s = s1_start and sl = "''a''" and sp = 2 and block = "''b''"
      and t = "''move''" and h = 3 and w = 2]
  by (simp add: tables getitem2_s1_start)

text \<open>
  C9. For a solver result with \<open>ok\<close> false, \<open>visualize\<close> prints the heading, the
  weights, the goal if there is one, and the "No plan found" line, then returns
  normally: no image is saved and no exception is raised.
\<close>

theorem visualize_no_plan:
  assumes "\<not> ok res"
  shows "visualize res sid =
      (Inr (), [Print_scenario sid, Print_weights (sort_key fst WEIGHT)]
               @ (if goal res \<noteq> [] then [Print_goal (format_goal (goal res))] else [])
               @ [Print_no_plan res])
     \<and> frames (snd (visualize res sid)) = []"
  using assms by (simp add: visualize_def frames_def)

theorem visualize_no_plan_witness:
  "\<not> ok \<lparr>ok = False, plan = [], cost = 0, budget = 20, goal = [((''a'', 1), ''empty'')]\<rparr>
   \<and> visualize \<lparr>ok = False, plan = [], cost = 0, budget = 20, goal = [((''a'', 1), ''empty'')]\<rparr> ''s1''
       = (Inr (), [Print_scenario ''s1'', Print_weights [(''a'', 1), (''b'', 2), (''c'', 3)],
                   Print_goal [((''a'', 1), ''empty'')],
                   Print_no_plan \<lparr>ok = False, plan = [], cost = 0, budget = 20,
                                   goal = [((''a'', 1), ''empty'')]\<rparr>])
   \<and> frames (snd (visualize \<lparr>ok = False, plan = [], cost = 0, budget = 20,
                                goal = [((''a'', 1), ''empty'')]\<rparr> ''s1'')) = []"
  using visualize_no_plan[of "\<lparr>ok = False, plan = [], cost = 0, budget = 20,
                                goal = [((''a'', 1), ''empty'')]\<rparr>" "''s1''"]
  by (simp add: WEIGHT_def format_goal_def frames_def)

text \<open>
  C8. For a solver result with \<open>ok\<close> true and an empty plan, on a scenario
  \<open>start_slots\<close> knows, \<open>visualize\<close> returns normally, saves exactly one image
  (step 0, showing the starting grid) and prints a recomputed total cost of 0,
  whatever the solver-reported cost is.
\<close>

theorem visualize_empty_plan:
  assumes "ok res" and "plan res = []" and "start_slots sid = Inr s0"
  shows "visualize res sid =
      (Inr (), [Print_scenario sid, Print_weights (sort_key fst WEIGHT)]
               @ (if goal res \<noteq> [] then [Print_goal (format_goal (goal res))] else [])
               @ [Print_budget (budget res), Print_plan_steps 0,
                  Print_total_cost_prolog (cost res),
                  Print_initial_state (format_state s0),
                  Savefig (''viz_'' @ sid) 0 (sid, cost res, budget res) (format_state s0)
                    [Some 2, Some 1] None,
                  Print_total_cost_python 0,
                  Print_images_saved (''viz_'' @ sid)])
     \<and> frames (snd (visualize res sid)) =
         [Savefig (''viz_'' @ sid) 0 (sid, cost res, budget res) (format_state s0)
            [Some 2, Some 1] None]"
  using assms draw_grid_std[OF start_slots_shape[OF assms(3)]]
  by (simp add: visualize_def frames_def Let_def)

theorem visualize_empty_plan_witness:
  "ok \<lparr>ok = True, plan = [], cost = 42, budget = 20, goal = []\<rparr>
   \<and> plan \<lparr>ok = True, plan = [], cost = 42, budget = 20, goal = []\<rparr> = []
   \<and> start_slots ''s1'' = Inr s1_start
   \<and> visualize \<lparr>ok = True, plan = [], cost = 42, budget = 20, goal = []\<rparr> ''s1'' =
      (Inr (), [Print_scenario ''s1'', Print_weights [(''a'', 1), (''b'', 2), (''c'', 3)],
                Print_budget 20, Print_plan_steps 0, Print_total_cost_prolog 42,
                Print_initial_state (format_state s1_start),
                Savefig ''viz_s1'' 0 (''s1'', 42, 20) (format_state s1_start)
                  [Some 2, Some 1] None,
                Print_total_cost_python 0,
                Print_images_saved ''viz_s1''])
   \<and> frames (snd (visualize \<lparr>ok = True, plan = [], cost = 42, budget = 20, goal = []\<rparr> ''s1'')) =
        [Savefig ''viz_s1'' 0 (''s1'', 42, 20) (format_state s1_start) [Some 2, Some 1] None]"
  using visualize_empty_plan[of "\<lparr>ok = True, plan = [], cost = 42, budget = 20, goal = []\<rparr>"
      "''s1''" s1_start]
  by (simp add: start_slots_s1 WEIGHT_def frames_def)

text \<open>
  C1, as the code has it. For a plan that passes all per-step validations, on a
  scenario \<open>start_slots\<close> knows, \<open>visualize\<close> returns normally and its output is,
  in this order: the heading, the weights and the goal; the budget, the number of
  steps and the solver-reported cost; the starting grid and its image; the events of
  the replay, none of which prints the solver-reported cost; and, as the last two
  lines, the recomputed total (the sum of the step costs) and the image directory.
  The two totals are never compared: with any other solver-reported cost the run
  also returns normally and its output differs only where that cost is echoed.
\<close>

theorem visualize_reports_both_costs:
  assumes "ok res" and "start_slots sid = Inr s0" and "steps_valid s0 (plan res)"
  shows "fst (visualize res sid) = Inr ()
     \<and> (\<exists>s' evs.
          replay s0 (sid, cost res, budget res) (''viz_'' @ sid) 0 1 (plan res)
            = (Inr (plan_cost (plan res)), s', evs)
        \<and> Print_total_cost_prolog (cost res) \<notin> set evs
        \<and> snd (visualize res sid) =
            [Print_scenario sid, Print_weights (sort_key fst WEIGHT)]
            @ (if goal res \<noteq> [] then [Print_goal (format_goal (goal res))] else [])
            @ [Print_budget (budget res), Print_plan_steps (length (plan res)),
               Print_total_cost_prolog (cost res),
               Print_initial_state (format_state s0),
               Savefig (''viz_'' @ sid) 0 (sid, cost res, budget res) (format_state s0)
                 [Some 2, Some 1] None]
            @ evs
            @ [Print_total_cost_python (plan_cost (plan res)),
               Print_images_saved (''viz_'' @ sid)])
     \<and> fst (visualize (res\<lparr>cost := c'\<rparr>) sid) = Inr ()
     \<and> map erase_reported (snd (visualize (res\<lparr>cost := c'\<rparr>) sid))
         = map erase_reported (snd (visualize res sid))"
proof -
  from visualize_valid[OF assms] obtain s' evs where
    r: "replay s0 (sid, cost res, budget res) (''viz_'' @ sid) 0 1 (plan res)
            = (Inr (plan_cost (plan res)), s', evs)"
    and n: "Print_total_cost_prolog (cost res) \<notin> set evs"
    and v: "visualize res sid =
       (Inr (),
        [Print_scenario sid, Print_weights (sort_key fst WEIGHT)]
        @ (if goal res \<noteq> [] then [Print_goal (format_goal (goal res))] else [])
        @ [Print_budget (budget res), Print_plan_steps (length (plan res)),
           Print_total_cost_prolog (cost res),
           Print_initial_state (format_state s0),
           Savefig (''viz_'' @ sid) 0 (sid, cost res, budget res) (format_state s0)
             [Some 2, Some 1] None]
        @ evs
        @ [Print_total_cost_python (plan_cost (plan res)),
           Print_images_saved (''viz_'' @ sid)])"
    by blast
  from v have f: "fst (visualize res sid) = Inr ()" by simp
  from v have s: "snd (visualize res sid) =
        [Print_scenario sid, Print_weights (sort_key fst WEIGHT)]
        @ (if goal res \<noteq> [] then [Print_goal (format_goal (goal res))] else [])
        @ [Print_budget (budget res), Print_plan_steps (length (plan res)),
           Print_total_cost_prolog (cost res),
           Print_initial_state (format_state s0),
           Savefig (''viz_'' @ sid) 0 (sid, cost res, budget res) (format_state s0)
             [Some 2, Some 1] None]
        @ evs
        @ [Print_total_cost_python (plan_cost (plan res)),
           Print_images_saved (''viz_'' @ sid)]" by simp
  have e: "fst (visualize (res\<lparr>cost := c'\<rparr>) sid) = Inr ()
     \<and> map erase_reported (snd (visualize (res\<lparr>cost := c'\<rparr>) sid))
         = map erase_reported (snd (visualize res sid))"
    using visualize_erase[where res = res and c' = c' and sid = sid] f by simp
  from r n s have "\<exists>s' evs.
          replay s0 (sid, cost res, budget res) (''viz_'' @ sid) 0 1 (plan res)
            = (Inr (plan_cost (plan res)), s', evs)
        \<and> Print_total_cost_prolog (cost res) \<notin> set evs
        \<and> snd (visualize res sid) =
            [Print_scenario sid, Print_weights (sort_key fst WEIGHT)]
            @ (if goal res \<noteq> [] then [Print_goal (format_goal (goal res))] else [])
            @ [Print_budget (budget res), Print_plan_steps (length (plan res)),
               Print_total_cost_prolog (cost res),
               Print_initial_state (format_state s0),
               Savefig (''viz_'' @ sid) 0 (sid, cost res, budget res) (format_state s0)
                 [Some 2, Some 1] None]
            @ evs
            @ [Print_total_cost_python (plan_cost (plan res)),
               Print_images_saved (''viz_'' @ sid)]" by blast
  with f e show ?thesis by blast
qed

theorem visualize_reports_both_costs_witness:
  "ok \<lparr>ok = True, plan = [(''move'', ''a'', 1, ''c'', 2, ''a'')], cost = 5, budget = 20, goal = []\<rparr>
   \<and> start_slots ''s1'' = Inr s1_start
   \<and> steps_valid s1_start [(''move'', ''a'', 1, ''c'', 2, ''a'')]
   \<and> fst (visualize \<lparr>ok = True, plan = [(''move'', ''a'', 1, ''c'', 2, ''a'')], cost = 5,
                       budget = 20, goal = []\<rparr> ''s1'') = Inr ()
   \<and> (\<exists>s' evs.
          replay s1_start (''s1'', 5, 20) ''viz_s1'' 0 1 [(''move'', ''a'', 1, ''c'', 2, ''a'')]
            = (Inr 5, s', evs)
        \<and> Print_total_cost_prolog 5 \<notin> set evs
        \<and> snd (visualize \<lparr>ok = True, plan = [(''move'', ''a'', 1, ''c'', 2, ''a'')],
                               cost = 5, budget = 20, goal = []\<rparr> ''s1'') =
            [Print_scenario ''s1'', Print_weights [(''a'', 1), (''b'', 2), (''c'', 3)],
             Print_budget 20, Print_plan_steps 1, Print_total_cost_prolog 5,
             Print_initial_state (format_state s1_start),
             Savefig ''viz_s1'' 0 (''s1'', 5, 20) (format_state s1_start) [Some 2, Some 1] None]
            @ evs
            @ [Print_total_cost_python 5, Print_images_saved ''viz_s1''])
   \<and> fst (visualize \<lparr>ok = True, plan = [(''move'', ''a'', 1, ''c'', 2, ''a'')], cost = 99,
                       budget = 20, goal = []\<rparr> ''s1'') = Inr ()
   \<and> map erase_reported
        (snd (visualize \<lparr>ok = True, plan = [(''move'', ''a'', 1, ''c'', 2, ''a'')], cost = 99,
                          budget = 20, goal = []\<rparr> ''s1''))
      = map erase_reported
        (snd (visualize \<lparr>ok = True, plan = [(''move'', ''a'', 1, ''c'', 2, ''a'')], cost = 5,
                          budget = 20, goal = []\<rparr> ''s1''))"
proof -
  let ?r = "\<lparr>ok = True, plan = [(''move'', ''a'', 1, ''c'', 2, ''a'')], cost = 5,
             budget = 20, goal = []\<rparr>"
  have h: "ok ?r" "start_slots ''s1'' = Inr s1_start" "steps_valid s1_start (plan ?r)"
    by (simp_all add: start_slots_s1 steps_valid_example del: steps_valid.simps)
  from visualize_reports_both_costs[OF h, of 99] h show ?thesis
    by (simp add: plan_cost_example WEIGHT_def del: steps_valid.simps replay.simps)
qed

text \<open>
  C1 as stated fails: on scenario \<open>s1\<close> with the one-move plan
  \<open>[["move","a",1,"c",2,"a"]]\<close> and a solver-reported cost of 99, the recomputed
  total is 5, and the complete output of the run holds both numbers but no
  consistency result; apart from the echoed 99 it is the output of the run whose
  solver-reported cost is the matching 5.
\<close>

theorem visualize_cost_mismatch_counterexample:
  "visualize \<lparr>ok = True, plan = [(''move'', ''a'', 1, ''c'', 2, ''a'')], cost = 99,
               budget = 20, goal = []\<rparr> ''s1'' =
    (Inr (),
     [Print_scenario ''s1'',
      Print_weights [(''a'', 1), (''b'', 2), (''c'', 3)],
      Print_budget 20, Print_plan_steps 1, Print_total_cost_prolog 99,
      Print_initial_state
       [(''a'', 1, Some ''a''), (''a'', 2, Some ''b''), (''a'', 3, None),
        (''b'', 1, Some ''c''), (''b'', 2, None), (''b'', 3, None),
        (''c'', 1, None), (''c'', 2, None), (''c'', 3, None)],
      Savefig ''viz_s1'' 0 (''s1'', 99, 20)
       [(''a'', 1, Some ''a''), (''a'', 2, Some ''b''), (''a'', 3, None),
        (''b'', 1, Some ''c''), (''b'', 2, None), (''b'', 3, None),
        (''c'', 1, None), (''c'', 2, None), (''c'', 3, None)]
       [Some 2, Some 1] None,
      Print_step 1 (''move'', ''a'', 1, ''c'', 2, ''a''),
      Print_step_cost \<lparr>distance = 3, vertical = 2, weight = 1\<rparr> 5,
      Print_state
       [(''a'', 1, None), (''a'', 2, Some ''b''), (''a'', 3, None),
        (''b'', 1, Some ''c''), (''b'', 2, None), (''b'', 3, None),
        (''c'', 1, None), (''c'', 2, Some ''a''), (''c'', 3, None)],
      Savefig ''viz_s1'' 1 (''s1'', 99, 20)
       [(''a'', 1, None), (''a'', 2, Some ''b''), (''a'', 3, None),
        (''b'', 1, Some ''c''), (''b'', 2, None), (''b'', 3, None),
        (''c'', 1, None), (''c'', 2, Some ''a''), (''c'', 3, None)]
       [Some 2, Some 1] (Some (''move'', ''a'', 1, ''c'', 2, ''a'')),
      Print_total_cost_python 5, Print_images_saved ''viz_s1''])
   \<and> map erase_reported
        (snd (visualize \<lparr>ok = True, plan = [(''move'', ''a'', 1, ''c'', 2, ''a'')], cost = 99,
                          budget = 20, goal = []\<rparr> ''s1''))
      = map erase_reported
        (snd (visualize \<lparr>ok = True, plan = [(''move'', ''a'', 1, ''c'', 2, ''a'')], cost = 5,
                          budget = 20, goal = []\<rparr> ''s1''))"
  by (simp add: visualize_def Let_def start_slots_def draw_grid_def format_state_def
      getitem2_def setitem2_def DIST_def DIST_get_def SHELF_HEIGHT_def WEIGHT_def
      move_cost.simps apply_move.simps)

end
